theory Spec2Isabelle
  imports Complex_Main
begin

section \<open>Exceptions\<close>

text \<open>
  The exceptions the modelled code raises or catches. \<open>is_Exception\<close> is
  \<^verbatim>\<open>isinstance(e, Exception)\<close>: what an \<^verbatim>\<open>except Exception\<close> clause catches.
  \<open>SystemExit\<close> (raised by \<^verbatim>\<open>sys.exit\<close>) and \<open>KeyboardInterrupt\<close> derive from
  \<^verbatim>\<open>BaseException\<close> only.
\<close>

datatype exn =
    PureErrorResponse
  | ValueError
  | IndexError
  | AssertionError
  | OverflowError
  | InfluxDBClientError
  | InfluxDBServerError
  | ConnectionError
  | OtherException string
  | SystemExit int
  | KeyboardInterrupt

fun is_Exception :: "exn \<Rightarrow> bool" where
  "is_Exception (SystemExit _) = False"
| "is_Exception KeyboardInterrupt = False"
| "is_Exception _ = True"

section \<open>Data points and queue items (influx.py)\<close>

datatype field_value = IntField int | FloatField real | StrField string | BoolField bool

record InfluxDataPoint =
  point_measurement :: string
  point_tags :: "(string \<times> string) list"
  point_time :: int
  point_fields :: "(string \<times> field_value) list"

datatype WriterThreadSignal = STOP

text \<open>\<^verbatim>\<open>InfluxDataQueue = Queue[Union[list[InfluxDataPoint], WriterThreadSignal]]\<close>\<close>

datatype queue_item = Points "InfluxDataPoint list" | Signal WriterThreadSignal

section \<open>The resolution table (collector\_base.py)\<close>

text \<open>
  A \<^verbatim>\<open>timedelta\<close> is modelled by its length in milliseconds, an integer: every duration
  the code builds is a whole number of milliseconds, and \<^verbatim>\<open>timedelta\<close> compares exactly.
\<close>

definition hours :: "int \<Rightarrow> int" where
  "hours n = n * 3600000"

definition days :: "int \<Rightarrow> int" where
  "days n = n * 86400000"

text \<open>
  The dict keeps insertion order, so \<^verbatim>\<open>.items()\<close> walks the pairs
  (resolution in ms, retention time) in the order written.
\<close>

definition METRIC_RESOLUTION_TO_RETENTION_TIME :: "(int \<times> int) list" where
  "METRIC_RESOLUTION_TO_RETENTION_TIME =
     [(1000, hours 3),
      (30000, hours 3),
      (300000, hours 24),
      (1800000, days 7),
      (7200000, days 30),
      (28800000, days 90),
      (86400000, days 365 * 100)]"

text \<open>
  \<^verbatim>\<open>timedelta(milliseconds=n)\<close> raises \<^verbatim>\<open>OverflowError\<close> when the normalised number of
  days (floor division) lies outside \<open>\<plusminus>999999999\<close>.
\<close>

definition timedelta_milliseconds :: "int \<Rightarrow> exn + int" where
  "timedelta_milliseconds n =
     (if \<bar>n div 86400000\<bar> > 999999999 then Inl OverflowError else Inr n)"

section \<open>Collector classes and instances (collector\_base.py, collector.py)\<close>

text \<open>
  A call of a method of the FlashArray client: its name and the \<^verbatim>\<open>start_time\<close> and
  \<^verbatim>\<open>resolution\<close> keyword arguments it is given, \<open>None\<close> where the call passes none.
  (The constant arguments \<^verbatim>\<open>ids=None\<close> and \<^verbatim>\<open>destroyed=False\<close> are left out.)
\<close>

record client_call =
  client_method :: string
  start_time_arg :: "int option"
  resolution_arg :: "int option"

text \<open>
  What the client returns. A valid response is represented by what the collector's
  \<^verbatim>\<open>response_to_influx_data\<close> makes of it when the caller consumes the generator with
  \<^verbatim>\<open>list(...)\<close>: the points, or the exception raised while shaping them. The shaping
  itself differs per collector class and is not modelled further.
\<close>

datatype response = ErrorResponse | ValidResponse "exn + InfluxDataPoint list"

text \<open>
  A subclass of \<^verbatim>\<open>BaseCollector\<close>: its class attributes and its \<^verbatim>\<open>get_response\<close>
  method, given as the client call it makes for \<^verbatim>\<open>start_time\<close> and \<^verbatim>\<open>resolution\<close>.
  An element \<open>None\<close> of \<open>RESOLUTIONS\<close> is Python's \<^verbatim>\<open>None\<close>.
\<close>

record collector_class =
  measurement :: string
  RESOLUTIONS :: "int option list"
  get_response :: "int \<Rightarrow> int \<Rightarrow> client_call"

record collector =
  cls :: collector_class
  host_tag :: string
  min_resolution :: "int option"
  influx_measurement :: string

definition PerformanceCollectorMixin_RESOLUTIONS :: "int option list" where
  "PerformanceCollectorMixin_RESOLUTIONS =
     [Some 30000, Some 300000, Some 1800000, Some 7200000, Some 28800000, Some 86400000]"

definition SpaceCollectorMixin_RESOLUTIONS :: "int option list" where
  "SpaceCollectorMixin_RESOLUTIONS =
     [Some 300000, Some 1800000, Some 7200000, Some 28800000, Some 86400000]"

definition ArraysPerformance :: collector_class where
  "ArraysPerformance =
     \<lparr> measurement = ''arrays_performance'',
       RESOLUTIONS =
         [Some 30000, Some 300000, Some 1800000, Some 7200000, Some 28800000, Some 86400000],
       get_response = (\<lambda>start_time resolution.
         \<lparr> client_method = ''get_arrays_performance'',
           start_time_arg = Some start_time, resolution_arg = Some resolution \<rparr>) \<rparr>"

definition HostsPerformance :: collector_class where
  "HostsPerformance =
     \<lparr> measurement = ''hosts_performance'',
       RESOLUTIONS = PerformanceCollectorMixin_RESOLUTIONS,
       get_response = (\<lambda>start_time resolution.
         \<lparr> client_method = ''get_hosts_performance'',
           start_time_arg = None, resolution_arg = None \<rparr>) \<rparr>"

definition ArraysSpace :: collector_class where
  "ArraysSpace =
     \<lparr> measurement = ''arrays_space'',
       RESOLUTIONS = SpaceCollectorMixin_RESOLUTIONS,
       get_response = (\<lambda>start_time resolution.
         \<lparr> client_method = ''get_arrays_space'',
           start_time_arg = Some start_time, resolution_arg = Some resolution \<rparr>) \<rparr>"

definition Controllers :: collector_class where
  "Controllers =
     \<lparr> measurement = ''controllers'',
       RESOLUTIONS = [None],
       get_response = (\<lambda>start_time resolution.
         \<lparr> client_method = ''get_controllers'',
           start_time_arg = None, resolution_arg = None \<rparr>) \<rparr>"

text \<open>Python truthiness of an \<^verbatim>\<open>Optional[int]\<close>: \<^verbatim>\<open>None\<close> and \<^verbatim>\<open>0\<close> are false.\<close>

fun truthy :: "int option \<Rightarrow> bool" where
  "truthy None = False"
| "truthy (Some n) = (n \<noteq> 0)"

text \<open>\<^verbatim>\<open>validate_resolution\<close>: \<^verbatim>\<open>min_resolution not in cls.RESOLUTIONS\<close> raises.\<close>

definition validate_resolution :: "collector_class \<Rightarrow> int \<Rightarrow> exn + unit" where
  "validate_resolution c m =
     (if Some m \<notin> set (RESOLUTIONS c) then Inl ValueError else Inr ())"

text \<open>
  \<^verbatim>\<open>BaseCollector.__init__\<close>. \<open>rest_version\<close> is the outcome of
  \<^verbatim>\<open>fa_client.get_rest_version()\<close>, called last, for the logger; \<^verbatim>\<open>RESOLUTIONS[0]\<close>
  raises \<^verbatim>\<open>IndexError\<close> on an empty tuple.
\<close>

definition BaseCollector_init ::
  "collector_class \<Rightarrow> string \<Rightarrow> exn + string \<Rightarrow> int option \<Rightarrow> string \<Rightarrow> exn + collector" where
  "BaseCollector_init c host rest_version min_res measurement_prefix =
     (case (if truthy min_res
            then (case validate_resolution c (the min_res) of
                    Inl e \<Rightarrow> Inl e
                  | Inr _ \<Rightarrow> Inr min_res)
            else (case RESOLUTIONS c of
                    [] \<Rightarrow> Inl IndexError
                  | r # _ \<Rightarrow> Inr r)) of
        Inl e \<Rightarrow> Inl e
      | Inr m \<Rightarrow>
          (case rest_version of
             Inl e \<Rightarrow> Inl e
           | Inr _ \<Rightarrow>
               Inr \<lparr> cls = c, host_tag = host, min_resolution = m,
                     influx_measurement = measurement_prefix @ measurement c \<rparr>))"

section \<open>Resolution selection (BaseCollector.influx\_data)\<close>

text \<open>
  The \<^verbatim>\<open>for\<close> loop over the table. \<open>self_min\<close> is \<^verbatim>\<open>self.min_resolution\<close>, the last
  argument the local variable \<^verbatim>\<open>min_resolution\<close>; the result is its value after the loop.
  An entry is skipped (\<^verbatim>\<open>continue\<close>) when \<^verbatim>\<open>self.min_resolution\<close> is truthy and the
  entry is finer; the first entry whose retention covers the look-back ends the loop
  (\<^verbatim>\<open>break\<close>).
\<close>

fun influx_data_loop ::
  "(int \<times> int) list \<Rightarrow> int option \<Rightarrow> int \<Rightarrow> int option \<Rightarrow> int option" where
  "influx_data_loop [] self_min start_time_delta min_res = min_res"
| "influx_data_loop ((resolution, retention_time) # rest) self_min start_time_delta min_res =
     (if truthy self_min \<and> resolution < the self_min
      then influx_data_loop rest self_min start_time_delta min_res
      else if start_time_delta \<le> retention_time
      then Some resolution
      else influx_data_loop rest self_min start_time_delta min_res)"

text \<open>
  The loop started with \<^verbatim>\<open>min_resolution = self.min_resolution\<close>, followed by
  \<^verbatim>\<open>assert min_resolution\<close>: the resolution handed to \<^verbatim>\<open>get_response\<close>.
\<close>

definition select_resolution :: "(int \<times> int) list \<Rightarrow> int option \<Rightarrow> int \<Rightarrow> exn + int" where
  "select_resolution table self_min start_time_delta =
     (let min_res = influx_data_loop table self_min start_time_delta self_min
      in if truthy min_res then Inr (the min_res) else Inl AssertionError)"

text \<open>
  The first part of \<^verbatim>\<open>influx_data\<close>, up to the assertion. \<open>now\<close> is the clock reading
  \<^verbatim>\<open>int(time() * 1000)\<close>.
\<close>

definition influx_data_resolution ::
  "(int \<times> int) list \<Rightarrow> collector \<Rightarrow> int \<Rightarrow> int \<Rightarrow> exn + int" where
  "influx_data_resolution table self now start_time =
     (case timedelta_milliseconds (now - start_time) of
        Inl e \<Rightarrow> Inl e
      | Inr start_time_delta \<Rightarrow> select_resolution table (min_resolution self) start_time_delta)"

text \<open>
  The record logged by \<^verbatim>\<open>influx_data\<close> when the chosen resolution differs from the
  configured one: only for classes with \<^verbatim>\<open>any(self.RESOLUTIONS)\<close>.
\<close>

definition logs_different_resolution :: "collector \<Rightarrow> int option \<Rightarrow> bool" where
  "logs_different_resolution self min_res =
     (list_ex truthy (RESOLUTIONS (cls self)) \<and> min_res \<noteq> min_resolution self)"

text \<open>The call \<^verbatim>\<open>self.get_response(start_time=start_time, resolution=min_resolution)\<close>.\<close>

definition influx_data_call ::
  "(int \<times> int) list \<Rightarrow> collector \<Rightarrow> int \<Rightarrow> int \<Rightarrow> exn + client_call" where
  "influx_data_call table self now start_time =
     (case influx_data_resolution table self now start_time of
        Inl e \<Rightarrow> Inl e
      | Inr resolution \<Rightarrow> Inr (get_response (cls self) start_time resolution))"

text \<open>
  The world one invocation of a collector runs in: the clock reading and the
  FlashArray client, which answers a call with a response or raises.
\<close>

record world =
  now_ms :: int
  fa_client :: "client_call \<Rightarrow> exn + response"

text \<open>
  \<^verbatim>\<open>list(collector.influx_data(start_time=...))\<close>: the points, or the exception raised.
\<close>

definition influx_data :: "world \<Rightarrow> collector \<Rightarrow> int \<Rightarrow> exn + InfluxDataPoint list" where
  "influx_data w self start_time =
     (case influx_data_call METRIC_RESOLUTION_TO_RETENTION_TIME self (now_ms w) start_time of
        Inl e \<Rightarrow> Inl e
      | Inr call \<Rightarrow>
          (case fa_client w call of
             Inl e \<Rightarrow> Inl e
           | Inr ErrorResponse \<Rightarrow> Inl PureErrorResponse
           | Inr (ValidResponse outcome) \<Rightarrow> outcome))"

section \<open>Resolution selection with its state made explicit\<close>

text \<open>
  The same lines of \<^verbatim>\<open>influx_data\<close>, now with everything the method can reach and write
  as a state that is passed through and returned: the instance \<^verbatim>\<open>self\<close> with its
  attributes, and the module's table. The local variable \<^verbatim>\<open>min_resolution\<close> is kept apart
  from the attribute \<^verbatim>\<open>self.min_resolution\<close>, which the loop reads anew in every round.
\<close>

record memory =
  self_object :: collector
  table_global :: "(int \<times> int) list"

text \<open>
  The \<^verbatim>\<open>for\<close> loop over the items still to visit. \<^verbatim>\<open>continue\<close> and the fall-through leave
  memory and local variable as they are; \<^verbatim>\<open>min_resolution = resolution\<close> assigns the local
  variable only, and \<^verbatim>\<open>break\<close> ends the loop.
\<close>

fun influx_data_for ::
  "(int \<times> int) list \<Rightarrow> int \<Rightarrow> memory \<times> int option \<Rightarrow> memory \<times> int option" where
  "influx_data_for [] start_time_delta (mem, min_res) = (mem, min_res)"
| "influx_data_for ((resolution, retention_time) # rest) start_time_delta (mem, min_res) =
     (if truthy (min_resolution (self_object mem))
         \<and> resolution < the (min_resolution (self_object mem))
      then influx_data_for rest start_time_delta (mem, min_res)
      else if start_time_delta \<le> retention_time
      then (mem, Some resolution)
      else influx_data_for rest start_time_delta (mem, min_res))"

text \<open>
  \<^verbatim>\<open>influx_data\<close> up to the assertion: the resolution it goes on to request, or the
  exception, and the memory it leaves behind.
\<close>

definition influx_data_select :: "int \<Rightarrow> int \<Rightarrow> memory \<Rightarrow> (exn + int) \<times> memory" where
  "influx_data_select now start_time mem =
     (case timedelta_milliseconds (now - start_time) of
        Inl e \<Rightarrow> (Inl e, mem)
      | Inr start_time_delta \<Rightarrow>
          (case influx_data_for (table_global mem) start_time_delta
                  (mem, min_resolution (self_object mem)) of
             (mem', min_res) \<Rightarrow>
               (if truthy min_res then Inr (the min_res) else Inl AssertionError, mem')))"

section \<open>One polling cycle (main.collect\_thread)\<close>

text \<open>The records \<^verbatim>\<open>collect_thread\<close> logs for a collector, one per invocation.\<close>

datatype log_record =
    Collected_data_points string nat
  | Collector_exception
  | Unhandled_exception

text \<open>
  The \<^verbatim>\<open>for collector in collectors\<close> loop of one cycle. Each collector comes with the
  world its invocation runs in. The state is the content of the queue, as this thread
  extends it, and the log. The first component of the result is the exception that leaves
  the loop, if any: \<^verbatim>\<open>except PureErrorResponse\<close> and \<^verbatim>\<open>except Exception\<close> both
  \<^verbatim>\<open>continue\<close>, anything else propagates. \<^verbatim>\<open>queue.put\<close> follows the \<^verbatim>\<open>try\<close> statement
  and is not guarded by any test on the list.
\<close>

fun collect_cycle ::
  "int \<Rightarrow> (collector \<times> world) list \<Rightarrow> queue_item list \<times> log_record list
     \<Rightarrow> exn option \<times> queue_item list \<times> log_record list" where
  "collect_cycle end_time_ms [] (queue, lg) = (None, queue, lg)"
| "collect_cycle end_time_ms ((c, w) # rest) (queue, lg) =
     (case influx_data w c end_time_ms of
        Inr influx_data_points \<Rightarrow>
          collect_cycle end_time_ms rest
            (queue @ [Points influx_data_points],
             lg @ [Collected_data_points (measurement (cls c)) (length influx_data_points)])
      | Inl e \<Rightarrow>
          if e = PureErrorResponse
          then collect_cycle end_time_ms rest (queue, lg @ [Collector_exception])
          else if is_Exception e
          then collect_cycle end_time_ms rest (queue, lg @ [Unhandled_exception])
          else (Some e, queue, lg))"

section \<open>The delivery worker (influx.influxdb\_writer)\<close>

text \<open>
  What the worker has done so far: the batches it handed to \<^verbatim>\<open>client.write_points\<close>, in
  order, the number of \<^verbatim>\<open>queue.task_done()\<close> calls, and the records its \<^verbatim>\<open>except\<close>
  clauses logged.
\<close>

record writer_state =
  writes :: "InfluxDataPoint list list"
  tasks_done :: nat
  writer_log :: "string list"

text \<open>The \<^verbatim>\<open>except\<close> clause that catches an exception, by the record it logs.\<close>

fun except_clause :: "exn \<Rightarrow> string" where
  "except_clause InfluxDBClientError = ''client_error''"
| "except_clause InfluxDBServerError = ''server_error''"
| "except_clause ConnectionError = ''connection_error''"
| "except_clause _ = ''unknown_exception''"

datatype iteration_result = Continue | Break | Raise exn

text \<open>
  The body of \<^verbatim>\<open>while True\<close> for the item \<^verbatim>\<open>queue.get()\<close> returned. \<open>write_points\<close> is the
  outcome of \<^verbatim>\<open>client.write_points\<close> on a batch: \<open>None\<close> when it returns, the exception
  when it raises. An exception that is no \<^verbatim>\<open>Exception\<close> leaves the loop before
  \<^verbatim>\<open>queue.task_done()\<close>.
\<close>

definition writer_iteration ::
  "(InfluxDataPoint list \<Rightarrow> exn option) \<Rightarrow> queue_item \<Rightarrow> writer_state
     \<Rightarrow> iteration_result \<times> writer_state" where
  "writer_iteration write_points item s =
     (case item of
        Signal sig \<Rightarrow>
          (if sig = STOP then Break else Continue, s\<lparr>tasks_done := tasks_done s + 1\<rparr>)
      | Points pts \<Rightarrow>
          if pts = [] then (Continue, s\<lparr>tasks_done := tasks_done s + 1\<rparr>)
          else
            (case write_points pts of
               None \<Rightarrow>
                 (Continue, s\<lparr>writes := writes s @ [pts], tasks_done := tasks_done s + 1\<rparr>)
             | Some e \<Rightarrow>
                 if is_Exception e
                 then (Continue,
                       s\<lparr>writes := writes s @ [pts],
                         writer_log := writer_log s @ [except_clause e],
                         tasks_done := tasks_done s + 1\<rparr>)
                 else (Raise e, s\<lparr>writes := writes s @ [pts]\<rparr>)))"

datatype writer_outcome = Waiting | Stopped | Died exn

text \<open>
  The worker run on the items the queue hands it, in order. \<open>client n\<close> is the sink's
  behaviour at the write call number \<open>n\<close>. The result is how the run ends (\<open>Waiting\<close>:
  blocked in \<^verbatim>\<open>queue.get()\<close> on the exhausted queue), the items never read, and the
  worker's trace.
\<close>

fun influxdb_writer ::
  "(nat \<Rightarrow> InfluxDataPoint list \<Rightarrow> exn option) \<Rightarrow> queue_item list \<Rightarrow> writer_state
     \<Rightarrow> writer_outcome \<times> queue_item list \<times> writer_state" where
  "influxdb_writer client [] s = (Waiting, [], s)"
| "influxdb_writer client (item # queue) s =
     (let (r, s') = writer_iteration (client (length (writes s))) item s
      in case r of
           Continue \<Rightarrow> influxdb_writer client queue s'
         | Break \<Rightarrow> (Stopped, queue, s')
         | Raise e \<Rightarrow> (Died e, queue, s'))"

section \<open>The threads of the process and the signal handler (main.main)\<close>

text \<open>
  The process after \<^verbatim>\<open>main\<close> has started the writer thread and installed
  \<^verbatim>\<open>exit_handler\<close>: collector threads, the writer thread and the main thread interleave.
  A step is one event; \<^verbatim>\<open>Thread.join\<close> and \<^verbatim>\<open>Queue.join\<close> are steps that are enabled
  only once the thread has finished, or once every item put has been marked done.

  The main thread starts each collector thread with \<^verbatim>\<open>t.start()\<close> and only then records
  it with \<^verbatim>\<open>collector_threads.append(t)\<close>: two statements, between which the thread
  already runs and a signal may be handled. It returns 0 from \<^verbatim>\<open>main\<close> at once; the
  entry point is \<^verbatim>\<open>exit(main())\<close>. From then on the exit status is fixed and the
  interpreter, still in the main thread, waits for the threads (none is a daemon) before
  the process ends. Python runs a signal handler in the main thread, wherever that thread
  stands: inside \<^verbatim>\<open>main\<close>, inside that wait, or inside an earlier invocation of the handler
  that is blocked in a join.
\<close>

text \<open>
  A collector thread (\<^verbatim>\<open>collect_thread\<close>): creating its client and collectors, at the test
  of \<^verbatim>\<open>while not SHOULD_STOP\<close>, inside the loop body (collecting, putting, sleeping), or
  finished.
\<close>

datatype thread_state = Initialising | At_loop_head | In_cycle | Finished

text \<open>
  The writer thread (\<^verbatim>\<open>influxdb_writer\<close>): blocked in or about to call \<^verbatim>\<open>queue.get()\<close>,
  working on the item it got, returned after \<^verbatim>\<open>STOP\<close>, or ended by an exception.
\<close>

datatype writer_thread_state = Getting | Holding queue_item | Writer_stopped | Writer_died

text \<open>
  Where the one invocation of \<^verbatim>\<open>exit_handler\<close> that got past the \<^verbatim>\<open>SHOULD_STOP\<close> test
  stands: joining the \<open>n\<close>-th collector thread, at \<^verbatim>\<open>data_points_queue.join()\<close>, at
  \<^verbatim>\<open>data_points_queue.put(WriterThreadSignal.STOP)\<close>, at
  \<^verbatim>\<open>influxdb_writer_thread.join()\<close>, or returned.
\<close>

datatype handler_pc = Idle | Join_collectors nat | Queue_join | Put_stop | Join_writer | Returned

text \<open>
  \<open>collector_threads\<close> is the list of the source, by the states of its threads; \<open>started\<close>
  is the thread \<^verbatim>\<open>t\<close> between \<^verbatim>\<open>t.start()\<close> and \<^verbatim>\<open>collector_threads.append(t)\<close>, if the
  main thread stands there. A thread is addressed by its position in the list, the started
  one by the position it is about to get.
  \<open>exit_status_pending\<close> is \<open>None\<close> while the main thread executes \<^verbatim>\<open>main\<close>, and the exit
  status once \<^verbatim>\<open>main\<close> was left and the interpreter waits for the threads.
  \<open>handler_aborted\<close>: an exception has unwound the handler invocation at \<open>handler\<close>.
  \<open>exit_code\<close> is \<open>None\<close> while the process runs.
\<close>

record system =
  SHOULD_STOP :: bool
  collector_threads :: "thread_state list"
  started :: "thread_state option"
  data_points_queue :: "queue_item list"
  unfinished_tasks :: nat
  writer_thread :: writer_thread_state
  writer_st :: writer_state
  queue_reads :: nat
  handler :: handler_pc
  handler_aborted :: bool
  exit_status_pending :: "int option"
  exit_code :: "int option"

definition SIGINT :: nat where
  "SIGINT = 2"

definition SIGTERM :: nat where
  "SIGTERM = 15"

datatype event =
    Thread_start
  | Thread_append
  | Main_returns
  | Interpreter_exits
  | Collector_ready nat
  | Loop_test nat
  | Queue_put nat "InfluxDataPoint list"
  | Cycle_end nat
  | Thread_dies nat
  | Writer_get
  | Writer_iteration "exn option"
  | Deliver_signal nat
  | Handler_step

definition initial :: system where
  "initial =
     \<lparr> SHOULD_STOP = False, collector_threads = [], started = None,
       data_points_queue = [],
       unfinished_tasks = 0, writer_thread = Getting,
       writer_st = \<lparr> writes = [], tasks_done = 0, writer_log = [] \<rparr>,
       queue_reads = 0, handler = Idle, handler_aborted = False,
       exit_status_pending = None, exit_code = None \<rparr>"

text \<open>The state of thread \<open>i\<close>, and thread \<open>i\<close> set to state \<open>b\<close>.\<close>

definition thread_at :: "system \<Rightarrow> nat \<Rightarrow> thread_state option" where
  "thread_at s i =
     (if i < length (collector_threads s) then Some (collector_threads s ! i)
      else if i = length (collector_threads s) then started s
      else None)"

definition set_thread :: "nat \<Rightarrow> thread_state \<Rightarrow> system \<Rightarrow> system" where
  "set_thread i b s =
     (if i < length (collector_threads s)
      then s\<lparr>collector_threads := (collector_threads s)[i := b]\<rparr>
      else s\<lparr>started := Some b\<rparr>)"

text \<open>A step of collector thread \<open>i\<close> from state \<open>a\<close> to state \<open>b\<close>.\<close>

definition thread_step :: "nat \<Rightarrow> thread_state \<Rightarrow> thread_state \<Rightarrow> system \<Rightarrow> system option" where
  "thread_step i a b s =
     (if thread_at s i = Some a then Some (set_thread i b s) else None)"

text \<open>
  \<^verbatim>\<open>exit(n)\<close> called in the handler raises \<^verbatim>\<open>SystemExit(n)\<close> in the main thread. While
  the main thread is inside \<^verbatim>\<open>main\<close>, the exception unwinds the handler and \<^verbatim>\<open>main\<close>:
  the exit status becomes \<open>n\<close>, and the interpreter goes on to wait for the threads. Once
  the interpreter is waiting for the threads, an exception raised there is only reported
  (``Exception ignored in'' the threading module): the wait is given up and the process ends
  at once, with the exit status fixed before.
\<close>

definition sys_exit :: "int \<Rightarrow> system \<Rightarrow> system" where
  "sys_exit n s =
     (case exit_status_pending s of
        None \<Rightarrow> s\<lparr>exit_status_pending := Some n, handler_aborted := True\<rparr>
      | Some status \<Rightarrow> s\<lparr>handler_aborted := True, exit_code := Some status\<rparr>)"

text \<open>
  \<^verbatim>\<open>exit_handler\<close> entered for signal \<open>signum\<close>. A second \<^verbatim>\<open>SIGTERM\<close> or \<^verbatim>\<open>SIGINT\<close> calls
  \<^verbatim>\<open>exit(1)\<close>; the first sets \<^verbatim>\<open>SHOULD_STOP\<close> and goes on to join the collector threads.
\<close>

definition exit_handler :: "nat \<Rightarrow> system \<Rightarrow> system" where
  "exit_handler signum s =
     (if signum \<in> {SIGTERM, SIGINT}
      then (if SHOULD_STOP s then sys_exit 1 s
            else s\<lparr>SHOULD_STOP := True, handler := Join_collectors 0\<rparr>)
      else s)"

text \<open>The next statement of the handler, when it is not blocked.\<close>

definition handler_step :: "system \<Rightarrow> system option" where
  "handler_step s =
     (if handler_aborted s then None
      else
        (case handler s of
           Idle \<Rightarrow> None
         | Join_collectors n \<Rightarrow>
             if n < length (collector_threads s)
             then (if collector_threads s ! n = Finished
                   then Some (s\<lparr>handler := Join_collectors (Suc n)\<rparr>)
                   else None)
             else Some (s\<lparr>handler := Queue_join\<rparr>)
         | Queue_join \<Rightarrow>
             if unfinished_tasks s = 0 then Some (s\<lparr>handler := Put_stop\<rparr>) else None
         | Put_stop \<Rightarrow>
             Some (s\<lparr>data_points_queue := data_points_queue s @ [Signal STOP],
                     unfinished_tasks := Suc (unfinished_tasks s),
                     handler := Join_writer\<rparr>)
         | Join_writer \<Rightarrow>
             if writer_thread s = Writer_stopped \<or> writer_thread s = Writer_died
             then Some (s\<lparr>handler := Returned\<rparr>)
             else None
         | Returned \<Rightarrow> None))"

text \<open>
  The writer thread finishes the iteration for the item it holds; \<open>outcome\<close> is what
  \<^verbatim>\<open>client.write_points\<close> does if called. \<^verbatim>\<open>queue.task_done()\<close> itself raises
  \<^verbatim>\<open>ValueError\<close> when no task is unfinished.
\<close>

definition writer_step :: "exn option \<Rightarrow> system \<Rightarrow> system option" where
  "writer_step outcome s =
     (case writer_thread s of
        Holding item \<Rightarrow>
          (case writer_iteration (\<lambda>pts. outcome) item (writer_st s) of
             (Raise e, ws) \<Rightarrow> Some (s\<lparr>writer_st := ws, writer_thread := Writer_died\<rparr>)
           | (r, ws) \<Rightarrow>
               if unfinished_tasks s = 0
               then Some (s\<lparr>writer_thread := Writer_died\<rparr>)
               else Some (s\<lparr>writer_st := ws,
                            unfinished_tasks := unfinished_tasks s - 1,
                            writer_thread := (if r = Break then Writer_stopped else Getting)\<rparr>))
      | _ \<Rightarrow> None)"

text \<open>The main thread is not inside an invocation of the handler.\<close>

definition main_thread_free :: "system \<Rightarrow> bool" where
  "main_thread_free s = (handler s = Idle \<or> handler s = Returned \<or> handler_aborted s)"

text \<open>
  One event. Once the process has ended nothing happens any more. The main thread starts
  a collector thread, and appends it to the list, only while it executes \<^verbatim>\<open>main\<close> and is
  not inside the handler; the interpreter ends the process, with the pending status, when
  the collector threads and the writer thread have finished. A collector thread puts batches only from inside the
  loop body, enters the body only if \<^verbatim>\<open>SHOULD_STOP\<close> is false at the loop test, and may
  end at any point by an exception.
\<close>

definition step :: "event \<Rightarrow> system \<Rightarrow> system option" where
  "step e s =
     (if exit_code s \<noteq> None then None
      else
        (case e of
           Thread_start \<Rightarrow>
             if exit_status_pending s = None \<and> main_thread_free s \<and> started s = None
             then Some (s\<lparr>started := Some Initialising\<rparr>)
             else None
         | Thread_append \<Rightarrow>
             (case started s of
                None \<Rightarrow> None
              | Some t \<Rightarrow>
                  if exit_status_pending s = None \<and> main_thread_free s
                  then Some (s\<lparr>collector_threads := collector_threads s @ [t],
                               started := None\<rparr>)
                  else None)
         | Main_returns \<Rightarrow>
             if exit_status_pending s = None \<and> main_thread_free s
             then Some (s\<lparr>exit_status_pending := Some 0\<rparr>)
             else None
         | Interpreter_exits \<Rightarrow>
             if exit_status_pending s \<noteq> None \<and> main_thread_free s
                \<and> list_all (\<lambda>t. t = Finished) (collector_threads s)
                \<and> (started s = None \<or> started s = Some Finished)
                \<and> (writer_thread s = Writer_stopped \<or> writer_thread s = Writer_died)
             then Some (s\<lparr>exit_code := exit_status_pending s\<rparr>)
             else None
         | Collector_ready i \<Rightarrow> thread_step i Initialising At_loop_head s
         | Loop_test i \<Rightarrow>
             thread_step i At_loop_head (if SHOULD_STOP s then Finished else In_cycle) s
         | Queue_put i pts \<Rightarrow>
             (case thread_step i In_cycle In_cycle s of
                None \<Rightarrow> None
              | Some s' \<Rightarrow>
                  Some (s'\<lparr>data_points_queue := data_points_queue s' @ [Points pts],
                           unfinished_tasks := Suc (unfinished_tasks s')\<rparr>))
         | Cycle_end i \<Rightarrow> thread_step i In_cycle At_loop_head s
         | Thread_dies i \<Rightarrow>
             (case thread_at s i of
                None \<Rightarrow> None
              | Some t \<Rightarrow> if t \<noteq> Finished then Some (set_thread i Finished s) else None)
         | Writer_get \<Rightarrow>
             (case (writer_thread s, data_points_queue s) of
                (Getting, item # rest) \<Rightarrow>
                  Some (s\<lparr>data_points_queue := rest, writer_thread := Holding item,
                          queue_reads := Suc (queue_reads s)\<rparr>)
              | _ \<Rightarrow> None)
         | Writer_iteration outcome \<Rightarrow> writer_step outcome s
         | Deliver_signal signum \<Rightarrow> Some (exit_handler signum s)
         | Handler_step \<Rightarrow> handler_step s))"

fun run :: "event list \<Rightarrow> system \<Rightarrow> system option" where
  "run [] s = Some s"
| "run (e # es) s = (case step e s of None \<Rightarrow> None | Some s' \<Rightarrow> run es s')"

section \<open>Notions used to state the properties\<close>

text \<open>
  A table entry qualifies for a configured minimum and a look-back when its resolution is
  not finer than the minimum (no minimum excludes nothing) and its retention time covers
  the look-back.
\<close>

fun at_least :: "int option \<Rightarrow> int \<Rightarrow> bool" where
  "at_least None resolution = True"
| "at_least (Some m) resolution = (m \<le> resolution)"

definition qualifies :: "int option \<Rightarrow> int \<Rightarrow> int \<times> int \<Rightarrow> bool" where
  "qualifies self_min look_back e = (at_least self_min (fst e) \<and> look_back \<le> snd e)"

text \<open>
  What one invocation of a collector adds to the queue, and the record it leaves in the
  log, in a cycle started with \<open>end_time_ms\<close>.
\<close>

definition enqueued_by :: "int \<Rightarrow> collector \<times> world \<Rightarrow> queue_item list" where
  "enqueued_by end_time_ms r =
     (case influx_data (snd r) (fst r) end_time_ms of
        Inr pts \<Rightarrow> [Points pts]
      | Inl e \<Rightarrow> [])"

definition logged_by :: "int \<Rightarrow> collector \<times> world \<Rightarrow> log_record" where
  "logged_by end_time_ms r =
     (case influx_data (snd r) (fst r) end_time_ms of
        Inr pts \<Rightarrow> Collected_data_points (measurement (cls (fst r))) (length pts)
      | Inl e \<Rightarrow> if e = PureErrorResponse then Collector_exception else Unhandled_exception)"

text \<open>The non-empty batches among queue items, in order.\<close>

fun nonempty_batches :: "queue_item list \<Rightarrow> InfluxDataPoint list list" where
  "nonempty_batches [] = []"
| "nonempty_batches (Points pts # rest) =
     (if pts = [] then nonempty_batches rest else pts # nonempty_batches rest)"
| "nonempty_batches (Signal sig # rest) = nonempty_batches rest"

text \<open>The items up to the first \<open>STOP\<close>, and those behind it.\<close>

definition before_stop :: "queue_item list \<Rightarrow> queue_item list" where
  "before_stop items = takeWhile (\<lambda>item. item \<noteq> Signal STOP) items"

definition behind_stop :: "queue_item list \<Rightarrow> queue_item list" where
  "behind_stop items = drop 1 (dropWhile (\<lambda>item. item \<noteq> Signal STOP) items)"

section \<open>Properties of resolution selection\<close>

lemma influx_data_loop_find:
  "\<forall>e \<in> set table. 0 < fst e \<Longrightarrow>
   influx_data_loop table self_min d acc =
     (case find (qualifies self_min d) table of None \<Rightarrow> acc | Some e \<Rightarrow> Some (fst e))"
proof (induction table)
  case Nil
  then show ?case by simp
next
  case (Cons e table)
  obtain r t where e: "e = (r, t)" by (cases e)
  from Cons.prems have pos: "0 < r" and rest: "\<forall>e \<in> set table. 0 < fst e"
    by (simp_all add: e)
  have skip: "(truthy self_min \<and> r < the self_min) = (\<not> at_least self_min r)"
    using pos by (cases self_min) auto
  have q: "qualifies self_min d (r, t) = (\<not> (truthy self_min \<and> r < the self_min) \<and> d \<le> t)"
    by (simp add: qualifies_def skip)
  show ?case
    using Cons.IH [OF rest] by (simp add: e q)
qed

text \<open>
  Claim C1. Whenever some entry of the table is not finer than the configured minimum and
  has a retention time covering the look-back, the selection returns the resolution of the
  first such entry in table order, and that resolution is never finer than the configured
  minimum. The table is any table of positive resolutions, so in particular the one of the
  module.
\<close>

theorem first_qualifying_entry_selected:
  assumes "\<forall>e \<in> set table. 0 < fst e"
    and "\<exists>e \<in> set table. qualifies self_min look_back e"
  shows "\<exists>r t. find (qualifies self_min look_back) table = Some (r, t)
           \<and> select_resolution table self_min look_back = Inr r
           \<and> (\<forall>m. self_min = Some m \<longrightarrow> m \<le> r)"
proof -
  from assms(2) obtain r t where f: "find (qualifies self_min look_back) table = Some (r, t)"
    by (cases "find (qualifies self_min look_back) table") (auto simp: find_None_iff)
  then have q: "qualifies self_min look_back (r, t)" and m: "(r, t) \<in> set table"
    by (auto simp: find_Some_iff in_set_conv_nth)
  from m assms(1) have "0 < r" by auto
  moreover have "influx_data_loop table self_min look_back self_min = Some r"
    using influx_data_loop_find [OF assms(1)] f by simp
  ultimately have "select_resolution table self_min look_back = Inr r"
    by (simp add: select_resolution_def)
  with f q show ?thesis by (auto simp: qualifies_def)
qed

theorem first_qualifying_entry_selected_witness:
  "0 < Min (fst ` set METRIC_RESOLUTION_TO_RETENTION_TIME)
   \<and> (\<exists>e \<in> set METRIC_RESOLUTION_TO_RETENTION_TIME. qualifies (Some 30000) (hours 2) e)
   \<and> select_resolution METRIC_RESOLUTION_TO_RETENTION_TIME (Some 30000) (hours 2) = Inr 30000"
  using first_qualifying_entry_selected [of METRIC_RESOLUTION_TO_RETENTION_TIME "Some 30000" "hours 2"]
  by (simp add: METRIC_RESOLUTION_TO_RETENTION_TIME_def qualifies_def hours_def days_def)





lemma influx_data_for_memory:
  "fst (influx_data_for items d (mem, acc)) = mem"
  by (induction items d "(mem, acc)" rule: influx_data_for.induct) auto

lemma influx_data_for_loop:
  "snd (influx_data_for items d (mem, acc)) =
     influx_data_loop items (min_resolution (self_object mem)) d acc"
  by (induction items d "(mem, acc)" rule: influx_data_for.induct) auto

lemma influx_data_for_eq:
  "influx_data_for items d (mem, acc) =
     (mem, influx_data_loop items (min_resolution (self_object mem)) d acc)"
  using influx_data_for_memory [of items d mem acc] influx_data_for_loop [of items d mem acc]
  by (simp add: prod_eq_iff)

lemma influx_data_select_eq:
  "influx_data_select now start_time mem =
     (influx_data_resolution (table_global mem) (self_object mem) now start_time, mem)"
  by (simp add: influx_data_select_def influx_data_resolution_def select_resolution_def
      influx_data_for_eq Let_def split: sum.splits)

text \<open>
  Claim C9. An invocation leaves the memory as it found it: it writes neither an attribute
  of the instance nor the table. Two invocations that agree on the table, on
  \<^verbatim>\<open>self.min_resolution\<close> and on the look-back select the same resolution (or fail
  alike), whatever else differs: class, host, prefix, the absolute clock reading and start
  time. And an invocation run again in the memory the first one left, with the same
  look-back, selects the same again.
\<close>

theorem selection_deterministic_and_stateless:
  "snd (influx_data_select now start_time mem) = mem
   \<and> (table_global mem1 = table_global mem2
        \<and> min_resolution (self_object mem1) = min_resolution (self_object mem2)
        \<and> now1 - start1 = now2 - start2 \<longrightarrow>
      fst (influx_data_select now1 start1 mem1) = fst (influx_data_select now2 start2 mem2))
   \<and> (now' - start' = now - start_time \<longrightarrow>
      fst (influx_data_select now' start' (snd (influx_data_select now start_time mem))) =
      fst (influx_data_select now start_time mem))"
  by (simp add: influx_data_select_eq influx_data_resolution_def cong: sum.case_cong)

theorem selection_deterministic_and_stateless_witness:
  "influx_data_select 1700000000000 1699990000000
     \<lparr> self_object =
         \<lparr> cls = ArraysPerformance, host_tag = ''fa1'', min_resolution = Some 30000,
           influx_measurement = ''arrays_performance'' \<rparr>,
       table_global = METRIC_RESOLUTION_TO_RETENTION_TIME \<rparr>
   = (Inr 30000,
      \<lparr> self_object =
          \<lparr> cls = ArraysPerformance, host_tag = ''fa1'', min_resolution = Some 30000,
            influx_measurement = ''arrays_performance'' \<rparr>,
        table_global = METRIC_RESOLUTION_TO_RETENTION_TIME \<rparr>)
   \<and> fst (influx_data_select 1800000000000 1799990000000
        \<lparr> self_object =
            \<lparr> cls = HostsPerformance, host_tag = ''fa2'', min_resolution = Some 30000,
              influx_measurement = ''x_hosts_performance'' \<rparr>,
          table_global = METRIC_RESOLUTION_TO_RETENTION_TIME \<rparr>) = Inr 30000"
proof -
  let ?m1 = "\<lparr> self_object =
         \<lparr> cls = ArraysPerformance, host_tag = ''fa1'', min_resolution = Some 30000,
           influx_measurement = ''arrays_performance'' \<rparr>,
       table_global = METRIC_RESOLUTION_TO_RETENTION_TIME \<rparr>"
  let ?m2 = "\<lparr> self_object =
            \<lparr> cls = HostsPerformance, host_tag = ''fa2'', min_resolution = Some 30000,
              influx_measurement = ''x_hosts_performance'' \<rparr>,
          table_global = METRIC_RESOLUTION_TO_RETENTION_TIME \<rparr>"
  note t = selection_deterministic_and_stateless
    [of 1700000000000 1699990000000 ?m1 ?m1 ?m2
        1700000000000 1699990000000 1800000000000 1799990000000]
  have r: "fst (influx_data_select 1700000000000 1699990000000 ?m1) = Inr 30000"
    by (simp add: influx_data_select_def timedelta_milliseconds_def
        METRIC_RESOLUTION_TO_RETENTION_TIME_def hours_def days_def)
  have s: "snd (influx_data_select 1700000000000 1699990000000 ?m1) = ?m1"
    using t by blast
  have e: "fst (influx_data_select 1800000000000 1799990000000 ?m2) = Inr 30000"
    using t r by simp
  from r s e show ?thesis by (simp add: prod_eq_iff)
qed

text \<open>
  Claim C10. The constructor raises \<^verbatim>\<open>ValueError\<close> for a truthy (non-zero) override that is
  not in the class's \<open>RESOLUTIONS\<close>; when it succeeds, \<open>min_resolution\<close> is the override if
  one was given (truthy), else the first element of \<open>RESOLUTIONS\<close>, and in both cases a
  member of \<open>RESOLUTIONS\<close>.
\<close>

theorem BaseCollector_init_min_resolution:
  "(truthy m \<and> m \<notin> set (RESOLUTIONS c) \<longrightarrow>
      BaseCollector_init c host rest_version m prefix = Inl ValueError)
   \<and> (BaseCollector_init c host rest_version m prefix = Inr self \<longrightarrow>
        (if truthy m then min_resolution self = m
         else (\<exists>rest. RESOLUTIONS c = min_resolution self # rest))
        \<and> min_resolution self \<in> set (RESOLUTIONS c))"
proof (cases m)
  case None
  then show ?thesis
    by (auto simp: BaseCollector_init_def split: list.splits sum.splits)
next
  case (Some n)
  then show ?thesis
    by (auto simp: BaseCollector_init_def validate_resolution_def split: list.splits sum.splits)
qed

theorem BaseCollector_init_min_resolution_witness:
  "BaseCollector_init ArraysPerformance ''fa1'' (Inr ''2.7'') (Some 1000) '''' = Inl ValueError
   \<and> BaseCollector_init ArraysPerformance ''fa1'' (Inr ''2.7'') (Some 300000) '''' =
       Inr \<lparr> cls = ArraysPerformance, host_tag = ''fa1'', min_resolution = Some 300000,
             influx_measurement = ''arrays_performance'' \<rparr>
   \<and> Some 300000 \<in> set (RESOLUTIONS ArraysPerformance)"
  using BaseCollector_init_min_resolution
          [of "Some 1000" ArraysPerformance "''fa1''" "Inr ''2.7''" "''''"]
        BaseCollector_init_min_resolution
          [of "Some 300000" ArraysPerformance "''fa1''" "Inr ''2.7''" "''''"
              "\<lparr> cls = ArraysPerformance, host_tag = ''fa1'', min_resolution = Some 300000,
                 influx_measurement = ''arrays_performance'' \<rparr>"]
  by (simp add: BaseCollector_init_def validate_resolution_def ArraysPerformance_def)

text \<open>
  Claim C2 as stated fails: the selection loop does not look at \<open>RESOLUTIONS\<close>. For a
  \<^verbatim>\<open>controllers\<close> collector, constructed with \<open>min_resolution = None\<close>, no entry is skipped
  and a look-back of 30 seconds selects the table's first resolution, 1000 ms.
\<close>

theorem current_only_selects_table_resolution_counterexample:
  "BaseCollector_init Controllers ''fa1'' (Inr ''2.7'') None '''' =
     Inr \<lparr> cls = Controllers, host_tag = ''fa1'', min_resolution = None,
           influx_measurement = ''controllers'' \<rparr>
   \<and> RESOLUTIONS Controllers = [None]
   \<and> influx_data_resolution METRIC_RESOLUTION_TO_RETENTION_TIME
        \<lparr> cls = Controllers, host_tag = ''fa1'', min_resolution = None,
          influx_measurement = ''controllers'' \<rparr>
        1700000000000 1699999970000 = Inr 1000"
  by (simp add: BaseCollector_init_def Controllers_def influx_data_resolution_def
      timedelta_milliseconds_def select_resolution_def
      METRIC_RESOLUTION_TO_RETENTION_TIME_def hours_def days_def)

lemma select_resolution_no_minimum:
  assumes "d \<le> days 365 * 100"
  shows "\<exists>r. select_resolution METRIC_RESOLUTION_TO_RETENTION_TIME None d = Inr r"
  using assms
  by (simp add: select_resolution_def METRIC_RESOLUTION_TO_RETENTION_TIME_def hours_def days_def)

text \<open>
  Claim C2, as the code has it. For every look-back the table covers (up to 100 years), the
  call a \<^verbatim>\<open>controllers\<close> collector makes is \<^verbatim>\<open>get_controllers()\<close>, carrying neither the
  start time nor the selected resolution: the source is asked for the current snapshot only.
  Nor is a change of resolution ever logged for it.
\<close>

theorem current_only_collector_call:
  assumes "BaseCollector_init Controllers host rest_version m prefix = Inr self"
    and "timedelta_milliseconds (now - start_time) = Inr look_back"
    and "look_back \<le> days 365 * 100"
  shows "influx_data_call METRIC_RESOLUTION_TO_RETENTION_TIME self now start_time =
           Inr \<lparr> client_method = ''get_controllers'',
                 start_time_arg = None, resolution_arg = None \<rparr>
         \<and> (\<forall>r. \<not> logs_different_resolution self r)"
proof -
  have c: "cls self = Controllers" and mr: "min_resolution self = None"
    using assms(1)
    by (auto simp: BaseCollector_init_def validate_resolution_def Controllers_def
        split: if_splits sum.splits)
  from select_resolution_no_minimum [OF assms(3)] obtain r where
    r: "select_resolution METRIC_RESOLUTION_TO_RETENTION_TIME None look_back = Inr r" ..
  have "influx_data_resolution METRIC_RESOLUTION_TO_RETENTION_TIME self now start_time = Inr r"
    by (simp add: influx_data_resolution_def assms(2) mr r)
  then have "influx_data_call METRIC_RESOLUTION_TO_RETENTION_TIME self now start_time =
           Inr \<lparr> client_method = ''get_controllers'',
                 start_time_arg = None, resolution_arg = None \<rparr>"
    by (simp add: influx_data_call_def c Controllers_def)
  moreover have "\<forall>r. \<not> logs_different_resolution self r"
    by (simp add: logs_different_resolution_def c Controllers_def)
  ultimately show ?thesis by simp
qed

theorem current_only_collector_call_witness:
  "BaseCollector_init Controllers ''fa1'' (Inr ''2.7'') None '''' =
     Inr \<lparr> cls = Controllers, host_tag = ''fa1'', min_resolution = None,
           influx_measurement = ''controllers'' \<rparr>
   \<and> timedelta_milliseconds (1700000000000 - 1699999970000) = Inr 30000
   \<and> 30000 \<le> days 365 * 100
   \<and> influx_data_call METRIC_RESOLUTION_TO_RETENTION_TIME
        \<lparr> cls = Controllers, host_tag = ''fa1'', min_resolution = None,
          influx_measurement = ''controllers'' \<rparr> 1700000000000 1699999970000 =
       Inr \<lparr> client_method = ''get_controllers'',
             start_time_arg = None, resolution_arg = None \<rparr>"
  using current_only_collector_call
          [of "''fa1''" "Inr ''2.7''" None "''''"
              "\<lparr> cls = Controllers, host_tag = ''fa1'', min_resolution = None,
                 influx_measurement = ''controllers'' \<rparr>"
              1700000000000 1699999970000 30000]
  by (simp add: BaseCollector_init_def Controllers_def timedelta_milliseconds_def days_def)

section \<open>Properties of the polling cycle and of the delivery worker\<close>

lemma collect_cycle_completes:
  assumes "\<forall>r \<in> set runs. \<forall>e. influx_data (snd r) (fst r) t = Inl e \<longrightarrow> is_Exception e"
  shows "collect_cycle t runs (q, lg) =
           (None, q @ concat (map (enqueued_by t) runs), lg @ map (logged_by t) runs)"
  using assms
proof (induction runs arbitrary: q lg)
  case Nil
  then show ?case by simp
next
  case (Cons r runs)
  obtain c w where r: "r = (c, w)" by (cases r)
  from Cons.prems have rest:
    "\<forall>r \<in> set runs. \<forall>e. influx_data (snd r) (fst r) t = Inl e \<longrightarrow> is_Exception e"
    by simp
  show ?case
  proof (cases "influx_data w c t")
    case (Inl e)
    with Cons.prems have "is_Exception e" by (simp add: r)
    with Inl show ?thesis
      by (simp add: r Cons.IH [OF rest] enqueued_by_def logged_by_def)
  next
    case (Inr pts)
    then show ?thesis
      by (simp add: r Cons.IH [OF rest] enqueued_by_def logged_by_def)
  qed
qed

lemma collect_cycle_returned:
  "collect_cycle t runs (q, lg) = (None, q', lg') \<Longrightarrow>
   q' = q @ concat (map (enqueued_by t) runs)"
proof (induction runs arbitrary: q lg)
  case Nil
  then show ?case by simp
next
  case (Cons r runs)
  obtain c w where r: "r = (c, w)" by (cases r)
  show ?case
  proof (cases "influx_data w c t")
    case (Inl e)
    with Cons.prems have "collect_cycle t runs
        (q, lg @ [if e = PureErrorResponse then Collector_exception else Unhandled_exception])
        = (None, q', lg')"
      by (auto simp: r split: if_splits)
    from Cons.IH [OF this] Inl show ?thesis by (simp add: r enqueued_by_def)
  next
    case (Inr pts)
    with Cons.prems have "collect_cycle t runs
        (q @ [Points pts], lg @ [Collected_data_points (measurement (cls c)) (length pts)])
        = (None, q', lg')"
      by (simp add: r)
    from Cons.IH [OF this] Inr show ?thesis by (simp add: r enqueued_by_def)
  qed
qed

lemma writer_iteration_caught:
  assumes "\<forall>e. wp pts = Some e \<longrightarrow> is_Exception e"
  shows "writer_iteration wp (Points pts) s =
           (Continue,
            s\<lparr>writes := (if pts = [] then writes s else writes s @ [pts]),
              writer_log := (case (if pts = [] then None else wp pts) of
                               None \<Rightarrow> writer_log s
                             | Some e \<Rightarrow> writer_log s @ [except_clause e]),
              tasks_done := tasks_done s + 1\<rparr>)"
  using assms by (auto simp: writer_iteration_def split: option.splits)

lemma influxdb_writer_trace:
  assumes "\<forall>n pts e. client n pts = Some e \<longrightarrow> is_Exception e"
  shows "fst (influxdb_writer client items s) =
           (if Signal STOP \<in> set items then Stopped else Waiting)
         \<and> fst (snd (influxdb_writer client items s)) = behind_stop items
         \<and> writes (snd (snd (influxdb_writer client items s))) =
             writes s @ nonempty_batches (before_stop items)
         \<and> tasks_done (snd (snd (influxdb_writer client items s))) =
             tasks_done s + (length items - length (behind_stop items))"
proof (induction items arbitrary: s)
  case Nil
  then show ?case by (simp add: before_stop_def behind_stop_def)
next
  case (Cons item items)
  show ?case
  proof (cases item)
    case (Points pts)
    have caught: "\<forall>e. client (length (writes s)) pts = Some e \<longrightarrow> is_Exception e"
      using assms by blast
    have len: "length (behind_stop items) \<le> length items"
      by (simp add: behind_stop_def) (metis diff_le_self le_trans length_dropWhile_le)
    note it = writer_iteration_caught [of "client (length (writes s))" pts s, OF caught]
    show ?thesis
      using Cons.IH len
      by (simp add: Points it before_stop_def behind_stop_def)
  next
    case (Signal sig)
    then show ?thesis
      by (cases sig) (simp add: writer_iteration_def before_stop_def behind_stop_def)
  qed
qed

lemma before_stop_enqueued:
  "before_stop (concat (map (enqueued_by t) runs)) = concat (map (enqueued_by t) runs)"
  unfolding before_stop_def
  by (rule takeWhile_eq_all_conv [THEN iffD2])
     (auto simp: enqueued_by_def split: sum.splits)

text \<open>
  Claim C3 as stated fails: \<^verbatim>\<open>collect_thread\<close> puts the list of every invocation that
  returns, without testing it. A \<^verbatim>\<open>controllers\<close> collector whose response holds no item
  yields zero points, and the empty list is enqueued.
\<close>

theorem empty_batch_enqueued_counterexample:
  "influx_data
     \<lparr> now_ms = 1700000000000, fa_client = (\<lambda>call. Inr (ValidResponse (Inr []))) \<rparr>
     \<lparr> cls = Controllers, host_tag = ''fa1'', min_resolution = None,
       influx_measurement = ''controllers'' \<rparr> 1699999970000 = Inr []
   \<and> collect_cycle 1699999970000
       [(\<lparr> cls = Controllers, host_tag = ''fa1'', min_resolution = None,
            influx_measurement = ''controllers'' \<rparr>,
         \<lparr> now_ms = 1700000000000, fa_client = (\<lambda>call. Inr (ValidResponse (Inr []))) \<rparr>)]
       ([], [])
     = (None, [Points []], [Collected_data_points ''controllers'' 0])"
  by (simp add: influx_data_def influx_data_call_def influx_data_resolution_def
      timedelta_milliseconds_def select_resolution_def Controllers_def
      METRIC_RESOLUTION_TO_RETENTION_TIME_def hours_def days_def)

text \<open>
  Claim C3, as the code has it. A cycle that completes has enqueued one item for every
  invocation that returned, in order, the empty lists included; it is the delivery worker
  that discards an empty list, so that the batches handed to the sink are exactly the
  non-empty ones of the queue.
\<close>

theorem empty_batch_enqueued_but_not_written:
  assumes "collect_cycle t runs ([], lg) = (None, queue', lg')"
    and "\<forall>n pts e. client n pts = Some e \<longrightarrow> is_Exception e"
  shows "queue' = concat (map (enqueued_by t) runs)
         \<and> (\<forall>r \<in> set runs. influx_data (snd r) (fst r) t = Inr [] \<longrightarrow> Points [] \<in> set queue')
         \<and> writes (snd (snd (influxdb_writer client queue' s))) =
             writes s @ nonempty_batches queue'
         \<and> [] \<notin> set (nonempty_batches queue')"
proof -
  have q: "queue' = concat (map (enqueued_by t) runs)"
    using collect_cycle_returned [OF assms(1)] by simp
  have e: "\<forall>r \<in> set runs. influx_data (snd r) (fst r) t = Inr [] \<longrightarrow> Points [] \<in> set queue'"
    unfolding q by (auto simp: enqueued_by_def intro!: bexI)
  have w: "writes (snd (snd (influxdb_writer client queue' s))) =
             writes s @ nonempty_batches queue'"
    using influxdb_writer_trace [OF assms(2), of queue' s]
    by (simp add: q before_stop_enqueued)
  have n: "[] \<notin> set (nonempty_batches xs)" for xs
    by (induction xs rule: nonempty_batches.induct) auto
  from q e w n show ?thesis by blast
qed

theorem empty_batch_enqueued_but_not_written_witness:
  "collect_cycle 1699999970000
     [(\<lparr> cls = Controllers, host_tag = ''fa1'', min_resolution = None,
          influx_measurement = ''controllers'' \<rparr>,
       \<lparr> now_ms = 1700000000000, fa_client = (\<lambda>call. Inr (ValidResponse (Inr []))) \<rparr>),
      (\<lparr> cls = ArraysPerformance, host_tag = ''fa1'', min_resolution = Some 30000,
          influx_measurement = ''arrays_performance'' \<rparr>,
       \<lparr> now_ms = 1700000000100,
         fa_client = (\<lambda>call. Inr (ValidResponse (Inr
           [\<lparr> point_measurement = ''arrays_performance'', point_tags = [(''host'', ''fa1'')],
              point_time = 1699999980000,
              point_fields = [(''reads_per_sec'', IntField 5)] \<rparr>]))) \<rparr>)]
     ([], [])
   = (None,
      [Points [],
       Points [\<lparr> point_measurement = ''arrays_performance'', point_tags = [(''host'', ''fa1'')],
                 point_time = 1699999980000,
                 point_fields = [(''reads_per_sec'', IntField 5)] \<rparr>]],
      [Collected_data_points ''controllers'' 0,
       Collected_data_points ''arrays_performance'' 1])
   \<and> writes (snd (snd (influxdb_writer (\<lambda>n pts. None)
       [Points [],
        Points [\<lparr> point_measurement = ''arrays_performance'', point_tags = [(''host'', ''fa1'')],
                  point_time = 1699999980000,
                  point_fields = [(''reads_per_sec'', IntField 5)] \<rparr>]]
       \<lparr> writes = [], tasks_done = 0, writer_log = [] \<rparr>)))
     = [[\<lparr> point_measurement = ''arrays_performance'', point_tags = [(''host'', ''fa1'')],
           point_time = 1699999980000,
           point_fields = [(''reads_per_sec'', IntField 5)] \<rparr>]]"
proof -
  have c: "collect_cycle 1699999970000
     [(\<lparr> cls = Controllers, host_tag = ''fa1'', min_resolution = None,
          influx_measurement = ''controllers'' \<rparr>,
       \<lparr> now_ms = 1700000000000, fa_client = (\<lambda>call. Inr (ValidResponse (Inr []))) \<rparr>),
      (\<lparr> cls = ArraysPerformance, host_tag = ''fa1'', min_resolution = Some 30000,
          influx_measurement = ''arrays_performance'' \<rparr>,
       \<lparr> now_ms = 1700000000100,
         fa_client = (\<lambda>call. Inr (ValidResponse (Inr
           [\<lparr> point_measurement = ''arrays_performance'', point_tags = [(''host'', ''fa1'')],
              point_time = 1699999980000,
              point_fields = [(''reads_per_sec'', IntField 5)] \<rparr>]))) \<rparr>)]
     ([], [])
   = (None,
      [Points [],
       Points [\<lparr> point_measurement = ''arrays_performance'', point_tags = [(''host'', ''fa1'')],
                 point_time = 1699999980000,
                 point_fields = [(''reads_per_sec'', IntField 5)] \<rparr>]],
      [Collected_data_points ''controllers'' 0,
       Collected_data_points ''arrays_performance'' 1])"
    by (simp add: influx_data_def influx_data_call_def influx_data_resolution_def
        timedelta_milliseconds_def select_resolution_def Controllers_def ArraysPerformance_def
        METRIC_RESOLUTION_TO_RETENTION_TIME_def hours_def days_def)
  have k: "\<forall>n pts e. (\<lambda>n pts. None :: exn option) n pts = Some e \<longrightarrow> is_Exception e"
    by simp
  note w = empty_batch_enqueued_but_not_written [OF c k,
      of "\<lparr> writes = [], tasks_done = 0, writer_log = [] \<rparr>",
      THEN conjunct2, THEN conjunct2, THEN conjunct1]
  show ?thesis
    by (rule conjI [OF c]) (subst w, simp)
qed

text \<open>
  Claim C4. In a cycle in which whatever the collectors raise is an \<^verbatim>\<open>Exception\<close>
  (\<^verbatim>\<open>PureErrorResponse\<close> or any other), no exception leaves the loop; every collector is
  invoked, in the configured order, and leaves its record in the log; a collector that
  raised adds nothing to the queue, and every collector that returned has its batch
  enqueued, in order.
\<close>

theorem failing_collector_is_skipped:
  assumes "\<forall>r \<in> set runs. \<forall>e. influx_data (snd r) (fst r) t = Inl e \<longrightarrow> is_Exception e"
  shows "collect_cycle t runs (queue, lg) =
           (None, queue @ concat (map (enqueued_by t) runs), lg @ map (logged_by t) runs)
         \<and> (\<forall>r \<in> set runs. \<forall>e. influx_data (snd r) (fst r) t = Inl e \<longrightarrow> enqueued_by t r = [])
         \<and> (\<forall>r \<in> set runs. \<forall>pts. influx_data (snd r) (fst r) t = Inr pts \<longrightarrow>
               enqueued_by t r = [Points pts])"
  using collect_cycle_completes [OF assms, of queue lg]
  by (simp add: enqueued_by_def)

theorem failing_collector_is_skipped_witness:
  "collect_cycle 1699999970000
     [(\<lparr> cls = ArraysPerformance, host_tag = ''fa1'', min_resolution = Some 30000,
          influx_measurement = ''arrays_performance'' \<rparr>,
       \<lparr> now_ms = 1700000000000,
         fa_client = (\<lambda>call. Inr (ValidResponse (Inr
           [\<lparr> point_measurement = ''arrays_performance'', point_tags = [(''host'', ''fa1'')],
              point_time = 1699999980000,
              point_fields = [(''reads_per_sec'', IntField 5)] \<rparr>]))) \<rparr>),
      (\<lparr> cls = ArraysSpace, host_tag = ''fa1'', min_resolution = Some 300000,
          influx_measurement = ''arrays_space'' \<rparr>,
       \<lparr> now_ms = 1700000000100, fa_client = (\<lambda>call. Inr ErrorResponse) \<rparr>),
      (\<lparr> cls = HostsPerformance, host_tag = ''fa1'', min_resolution = Some 30000,
          influx_measurement = ''hosts_performance'' \<rparr>,
       \<lparr> now_ms = 1700000000200, fa_client = (\<lambda>call. Inl (OtherException ''timeout'')) \<rparr>),
      (\<lparr> cls = Controllers, host_tag = ''fa1'', min_resolution = None,
          influx_measurement = ''controllers'' \<rparr>,
       \<lparr> now_ms = 1700000000300,
         fa_client = (\<lambda>call. Inr (ValidResponse (Inr
           [\<lparr> point_measurement = ''controllers'', point_tags = [(''host'', ''fa1'')],
              point_time = 1700000000300,
              point_fields = [(''status'', StrField ''ready'')] \<rparr>]))) \<rparr>)]
     ([], [])
   = (None,
      [Points [\<lparr> point_measurement = ''arrays_performance'', point_tags = [(''host'', ''fa1'')],
                 point_time = 1699999980000,
                 point_fields = [(''reads_per_sec'', IntField 5)] \<rparr>],
       Points [\<lparr> point_measurement = ''controllers'', point_tags = [(''host'', ''fa1'')],
                 point_time = 1700000000300,
                 point_fields = [(''status'', StrField ''ready'')] \<rparr>]],
      [Collected_data_points ''arrays_performance'' 1, Collector_exception,
       Unhandled_exception, Collected_data_points ''controllers'' 1])"
proof -
  let ?t = "1699999970000 :: int"
  let ?p1 = "\<lparr> point_measurement = ''arrays_performance'', point_tags = [(''host'', ''fa1'')],
              point_time = 1699999980000,
              point_fields = [(''reads_per_sec'', IntField 5)] \<rparr>"
  let ?p2 = "\<lparr> point_measurement = ''controllers'', point_tags = [(''host'', ''fa1'')],
              point_time = 1700000000300,
              point_fields = [(''status'', StrField ''ready'')] \<rparr>"
  let ?c1 = "\<lparr> cls = ArraysPerformance, host_tag = ''fa1'', min_resolution = Some 30000,
          influx_measurement = ''arrays_performance'' \<rparr>"
  let ?w1 = "\<lparr> now_ms = 1700000000000,
         fa_client = (\<lambda>call. Inr (ValidResponse (Inr [?p1]))) \<rparr>"
  let ?c2 = "\<lparr> cls = ArraysSpace, host_tag = ''fa1'', min_resolution = Some 300000,
          influx_measurement = ''arrays_space'' \<rparr>"
  let ?w2 = "\<lparr> now_ms = 1700000000100, fa_client = (\<lambda>call. Inr ErrorResponse) \<rparr>"
  let ?c3 = "\<lparr> cls = HostsPerformance, host_tag = ''fa1'', min_resolution = Some 30000,
          influx_measurement = ''hosts_performance'' \<rparr>"
  let ?w3 = "\<lparr> now_ms = 1700000000200,
         fa_client = (\<lambda>call. Inl (OtherException ''timeout'')) \<rparr>"
  let ?c4 = "\<lparr> cls = Controllers, host_tag = ''fa1'', min_resolution = None,
          influx_measurement = ''controllers'' \<rparr>"
  let ?w4 = "\<lparr> now_ms = 1700000000300,
         fa_client = (\<lambda>call. Inr (ValidResponse (Inr [?p2]))) \<rparr>"
  note defs = influx_data_def influx_data_call_def influx_data_resolution_def
      timedelta_milliseconds_def select_resolution_def
      METRIC_RESOLUTION_TO_RETENTION_TIME_def hours_def days_def
  have i1: "influx_data ?w1 ?c1 ?t = Inr [?p1]"
    by (simp add: defs)
  have i2: "influx_data ?w2 ?c2 ?t = Inl PureErrorResponse"
    by (simp add: defs)
  have i3: "influx_data ?w3 ?c3 ?t = Inl (OtherException ''timeout'')"
    by (simp add: defs)
  have i4: "influx_data ?w4 ?c4 ?t = Inr [?p2]"
    by (simp add: defs)
  have h: "\<forall>r \<in> set [(?c1, ?w1), (?c2, ?w2), (?c3, ?w3), (?c4, ?w4)].
             \<forall>e. influx_data (snd r) (fst r) ?t = Inl e \<longrightarrow> is_Exception e"
    by (simp add: i1 i2 i3 i4)
  note c = failing_collector_is_skipped [OF h, of "[]" "[]", THEN conjunct1]
  have m: "measurement ArraysPerformance = ''arrays_performance''"
    "measurement Controllers = ''controllers''"
    by (simp_all add: ArraysPerformance_def Controllers_def)
  show ?thesis
    by (subst c) (simp add: enqueued_by_def logged_by_def i1 i2 i3 i4 m)
qed

text \<open>
  Claim C5. Whatever the sink does at each write, as long as a failure is of one of the four
  classes the worker catches (client error, server error, connection error, any other
  \<^verbatim>\<open>Exception\<close>): the batches handed to \<^verbatim>\<open>write_points\<close> are exactly the non-empty batches
  dequeued before \<open>STOP\<close>, each once and in order, so a failed batch is not written again;
  the worker marks every item it read as done and goes on until \<open>STOP\<close> (or until the queue
  is exhausted); the items behind \<open>STOP\<close> are never read, and nothing is put back.
\<close>

theorem each_batch_written_once:
  assumes "\<forall>n pts e. client n pts = Some e \<longrightarrow> is_Exception e"
  shows "fst (influxdb_writer client items s) =
           (if Signal STOP \<in> set items then Stopped else Waiting)
         \<and> fst (snd (influxdb_writer client items s)) = behind_stop items
         \<and> writes (snd (snd (influxdb_writer client items s))) =
             writes s @ nonempty_batches (before_stop items)
         \<and> tasks_done (snd (snd (influxdb_writer client items s))) =
             tasks_done s + (length items - length (behind_stop items))"
  by (rule influxdb_writer_trace [OF assms])

theorem each_batch_written_once_witness:
  "influxdb_writer
     (\<lambda>n pts. if n = 0 then Some ConnectionError
               else if n = 1 then Some InfluxDBServerError else None)
     [Points [\<lparr> point_measurement = ''arrays_performance'', point_tags = [(''host'', ''fa1'')],
                point_time = 1699999980000,
                point_fields = [(''reads_per_sec'', IntField 5)] \<rparr>],
      Points [],
      Points [\<lparr> point_measurement = ''controllers'', point_tags = [(''host'', ''fa1'')],
                point_time = 1700000000300,
                point_fields = [(''status'', StrField ''ready'')] \<rparr>],
      Points [\<lparr> point_measurement = ''arrays_performance'', point_tags = [(''host'', ''fa1'')],
                point_time = 1700000010000,
                point_fields = [(''reads_per_sec'', IntField 7)] \<rparr>],
      Signal STOP,
      Points []]
     \<lparr> writes = [], tasks_done = 0, writer_log = [] \<rparr>
   = (Stopped, [Points []],
      \<lparr> writes =
          [[\<lparr> point_measurement = ''arrays_performance'', point_tags = [(''host'', ''fa1'')],
              point_time = 1699999980000,
              point_fields = [(''reads_per_sec'', IntField 5)] \<rparr>],
           [\<lparr> point_measurement = ''controllers'', point_tags = [(''host'', ''fa1'')],
              point_time = 1700000000300,
              point_fields = [(''status'', StrField ''ready'')] \<rparr>],
           [\<lparr> point_measurement = ''arrays_performance'', point_tags = [(''host'', ''fa1'')],
              point_time = 1700000010000,
              point_fields = [(''reads_per_sec'', IntField 7)] \<rparr>]],
        tasks_done = 5,
        writer_log = [''connection_error'', ''server_error''] \<rparr>)"
  using each_batch_written_once [of
     "\<lambda>n pts. if n = 0 then Some ConnectionError
               else if n = 1 then Some InfluxDBServerError else None"
     "[Points [\<lparr> point_measurement = ''arrays_performance'', point_tags = [(''host'', ''fa1'')],
                point_time = 1699999980000,
                point_fields = [(''reads_per_sec'', IntField 5)] \<rparr>],
      Points [],
      Points [\<lparr> point_measurement = ''controllers'', point_tags = [(''host'', ''fa1'')],
                point_time = 1700000000300,
                point_fields = [(''status'', StrField ''ready'')] \<rparr>],
      Points [\<lparr> point_measurement = ''arrays_performance'', point_tags = [(''host'', ''fa1'')],
                point_time = 1700000010000,
                point_fields = [(''reads_per_sec'', IntField 7)] \<rparr>],
      Signal STOP,
      Points []]"
     "\<lparr> writes = [], tasks_done = 0, writer_log = [] \<rparr>"]
  by (simp add: writer_iteration_def)

section \<open>Properties of the shutdown\<close>

lemma thread_step_Some:
  "thread_step i a b s = Some s' \<longleftrightarrow> thread_at s i = Some a \<and> s' = set_thread i b s"
  by (auto simp: thread_step_def)

lemma set_thread_frame:
  "SHOULD_STOP (set_thread i b s) = SHOULD_STOP s"
  "data_points_queue (set_thread i b s) = data_points_queue s"
  "unfinished_tasks (set_thread i b s) = unfinished_tasks s"
  "writer_thread (set_thread i b s) = writer_thread s"
  "queue_reads (set_thread i b s) = queue_reads s"
  "handler (set_thread i b s) = handler s"
  by (simp_all add: set_thread_def)

lemma writer_step_cases:
  assumes "writer_step outcome s = Some s'"
  obtains item e ws where "writer_thread s = Holding item"
      and "s' = s\<lparr>writer_st := ws, writer_thread := Writer_died\<rparr>"
      and "writer_iteration (\<lambda>pts. outcome) item (writer_st s) = (Raise e, ws)"
  | item where "writer_thread s = Holding item" and "unfinished_tasks s = 0"
      and "s' = s\<lparr>writer_thread := Writer_died\<rparr>"
  | item r ws where "writer_thread s = Holding item" and "unfinished_tasks s \<noteq> 0"
      and "writer_iteration (\<lambda>pts. outcome) item (writer_st s) = (r, ws)"
      and "\<forall>e. r \<noteq> Raise e"
      and "s' = s\<lparr>writer_st := ws, unfinished_tasks := unfinished_tasks s - 1,
                  writer_thread := (if r = Break then Writer_stopped else Getting)\<rparr>"
  using assms
  by (auto simp: writer_step_def
      split: writer_thread_state.splits prod.splits iteration_result.splits if_splits)

lemma step_should_stop:
  assumes "step e s = Some s'" and "SHOULD_STOP s"
  shows "SHOULD_STOP s'"
proof (cases e)
  case (Writer_iteration outcome)
  with assms show ?thesis
    by (auto simp: step_def split: if_splits elim!: writer_step_cases)
next
  case Handler_step
  with assms show ?thesis
    by (auto simp: step_def handler_step_def split: if_splits handler_pc.splits)
qed (use assms in \<open>auto simp: step_def thread_step_Some set_thread_frame
      exit_handler_def sys_exit_def
      split: if_splits option.splits writer_thread_state.splits list.splits\<close>)

lemma run_should_stop:
  "SHOULD_STOP s \<Longrightarrow> run es s = Some s' \<Longrightarrow> SHOULD_STOP s'"
proof (induction es arbitrary: s)
  case Nil
  then show ?case by simp
next
  case (Cons e es)
  then show ?case
    by (auto split: option.splits dest: step_should_stop)
qed

lemma signal_sets_should_stop:
  assumes "step (Deliver_signal signum) s = Some s'" and "signum \<in> {SIGTERM, SIGINT}"
  shows "SHOULD_STOP s'"
  using assms
  by (auto simp: step_def exit_handler_def sys_exit_def split: if_splits option.splits)

lemma run_signalled:
  "run es s = Some s' \<Longrightarrow> Deliver_signal signum \<in> set es \<Longrightarrow>
   signum \<in> {SIGTERM, SIGINT} \<Longrightarrow> SHOULD_STOP s'"
proof (induction es arbitrary: s)
  case Nil
  then show ?case by simp
next
  case (Cons e es)
  from Cons.prems(1) obtain s1 where s1: "step e s = Some s1" and r: "run es s1 = Some s'"
    by (auto split: option.splits)
  show ?case
  proof (cases "e = Deliver_signal signum")
    case True
    with s1 Cons.prems(3) have "SHOULD_STOP s1"
      by (auto dest: signal_sets_should_stop)
    with r show ?thesis by (rule run_should_stop [rotated])
  next
    case False
    with Cons.prems(2) have "Deliver_signal signum \<in> set es" by simp
    from Cons.IH [OF r this Cons.prems(3)] show ?thesis .
  qed
qed

lemma step_writer_stopped:
  assumes "step e s = Some s'" and "writer_thread s = Writer_stopped"
  shows "writer_thread s' = Writer_stopped \<and> queue_reads s' = queue_reads s"
proof (cases e)
  case (Writer_iteration outcome)
  with assms show ?thesis
    by (auto simp: step_def writer_step_def split: if_splits)
next
  case Handler_step
  with assms show ?thesis
    by (auto simp: step_def handler_step_def split: if_splits handler_pc.splits)
qed (use assms in \<open>auto simp: step_def thread_step_Some set_thread_frame
      exit_handler_def sys_exit_def
      split: if_splits option.splits\<close>)

lemma run_writer_stopped:
  "writer_thread s = Writer_stopped \<Longrightarrow> run es s = Some s' \<Longrightarrow>
   writer_thread s' = Writer_stopped \<and> queue_reads s' = queue_reads s"
proof (induction es arbitrary: s)
  case Nil
  then show ?case by simp
next
  case (Cons e es)
  from Cons.prems(2) obtain s1 where s1: "step e s = Some s1" and r: "run es s1 = Some s'"
    by (auto split: option.splits)
  from step_writer_stopped [OF s1 Cons.prems(1)] Cons.IH [OF _ r]
  show ?case by simp
qed

lemma stop_put_by_handler:
  assumes "step e s = Some s'"
    and "Signal STOP \<in> set (data_points_queue s')"
    and "Signal STOP \<notin> set (data_points_queue s)"
  shows "e = Handler_step \<and> handler s = Put_stop"
proof (cases e)
  case (Writer_iteration outcome)
  with assms show ?thesis
    by (auto simp: step_def split: if_splits elim!: writer_step_cases)
next
  case Handler_step
  with assms show ?thesis
    by (auto simp: step_def handler_step_def split: if_splits handler_pc.splits)
next
  case Writer_get
  with assms show ?thesis
    by (auto simp: step_def split: if_splits writer_thread_state.splits list.splits)
qed (use assms in \<open>auto simp: step_def thread_step_Some set_thread_frame
      exit_handler_def sys_exit_def
      split: if_splits option.splits\<close>)

lemmas sys_defs = step_def thread_step_def thread_at_def set_thread_def exit_handler_def
  sys_exit_def handler_step_def writer_step_def writer_iteration_def main_thread_free_def
  initial_def SIGTERM_def SIGINT_def

text \<open>
  A run in which nothing interferes: the thread is started and recorded, \<^verbatim>\<open>main\<close>
  returns, a batch is put and written, and after the signal the handler joins the thread,
  waits for the queue, puts \<open>STOP\<close> and joins the writer; the process ends with status 0.
\<close>

lemma graceful_shutdown_run:
  "run [Thread_start, Thread_append, Collector_ready 0, Loop_test 0, Main_returns,
        Queue_put 0 [\<lparr> point_measurement = ''controllers'', point_tags = [(''host'', ''fa1'')],
                       point_time = 1700000000300,
                       point_fields = [(''status'', StrField ''ready'')] \<rparr>],
        Deliver_signal SIGTERM, Writer_get, Writer_iteration None, Cycle_end 0, Loop_test 0,
        Handler_step, Handler_step, Handler_step, Handler_step,
        Writer_get, Writer_iteration None, Handler_step, Interpreter_exits] initial
   = Some \<lparr> SHOULD_STOP = True, collector_threads = [Finished], started = None,
            data_points_queue = [], unfinished_tasks = 0,
            writer_thread = Writer_stopped,
            writer_st =
              \<lparr> writes = [[\<lparr> point_measurement = ''controllers'',
                             point_tags = [(''host'', ''fa1'')],
                             point_time = 1700000000300,
                             point_fields = [(''status'', StrField ''ready'')] \<rparr>]],
                tasks_done = 2, writer_log = [] \<rparr>,
            queue_reads = 2, handler = Returned, handler_aborted = False,
            exit_status_pending = Some 0, exit_code = Some 0 \<rparr>"
  by (simp add: sys_defs)

text \<open>
  Claim C6, on the code. The signal is handled between \<^verbatim>\<open>t.start()\<close> and
  \<^verbatim>\<open>collector_threads.append(t)\<close>: the thread runs, and has passed the loop test, but the
  list the handler joins is still empty. The handler finds nothing to join and nothing to
  drain and puts \<open>STOP\<close> while that thread is alive and unjoined (first run). The writer
  takes \<open>STOP\<close> and returns, as claimed, and reads no more; the batch the thread then puts
  stays in the queue behind it, and the process ends with it undelivered (second run).
\<close>

theorem stop_put_while_thread_unjoined:
  "run [Thread_start, Collector_ready 0, Loop_test 0, Deliver_signal SIGTERM,
        Handler_step, Handler_step, Handler_step] initial
   = Some \<lparr> SHOULD_STOP = True, collector_threads = [], started = Some In_cycle,
            data_points_queue = [Signal STOP], unfinished_tasks = 1,
            writer_thread = Getting,
            writer_st = \<lparr> writes = [], tasks_done = 0, writer_log = [] \<rparr>,
            queue_reads = 0, handler = Join_writer, handler_aborted = False,
            exit_status_pending = None, exit_code = None \<rparr>
   \<and> run [Thread_start, Collector_ready 0, Loop_test 0, Deliver_signal SIGTERM,
          Handler_step, Handler_step, Handler_step,
          Writer_get, Writer_iteration None, Handler_step, Thread_append,
          Queue_put 0 [\<lparr> point_measurement = ''controllers'',
                         point_tags = [(''host'', ''fa1'')],
                         point_time = 1700000000300,
                         point_fields = [(''status'', StrField ''ready'')] \<rparr>],
          Cycle_end 0, Loop_test 0, Main_returns, Interpreter_exits] initial
     = Some \<lparr> SHOULD_STOP = True, collector_threads = [Finished], started = None,
              data_points_queue =
                [Points [\<lparr> point_measurement = ''controllers'',
                           point_tags = [(''host'', ''fa1'')],
                           point_time = 1700000000300,
                           point_fields = [(''status'', StrField ''ready'')] \<rparr>]],
              unfinished_tasks = 1, writer_thread = Writer_stopped,
              writer_st = \<lparr> writes = [], tasks_done = 1, writer_log = [] \<rparr>,
              queue_reads = 1, handler = Returned, handler_aborted = False,
              exit_status_pending = Some 0, exit_code = Some 0 \<rparr>"
  by (simp add: sys_defs)

text \<open>
  In every state the process reaches after a first \<^verbatim>\<open>SIGTERM\<close> or \<^verbatim>\<open>SIGINT\<close>, wherever
  the handler stands in its sequence of joins, a second such signal makes \<^verbatim>\<open>exit_handler\<close>
  call \<^verbatim>\<open>exit(1)\<close> and nothing else. What becomes of the process depends on where the main
  thread stands.
\<close>

lemma second_signal_calls_exit:
  assumes "run es initial = Some s"
    and "Deliver_signal sig1 \<in> set es" and "sig1 \<in> {SIGTERM, SIGINT}"
    and "sig2 \<in> {SIGTERM, SIGINT}"
    and "exit_code s = None"
  shows "step (Deliver_signal sig2) s = Some (sys_exit 1 s)"
proof -
  have "SHOULD_STOP s"
    using run_signalled [OF assms(1-3)] .
  with assms(4,5) show ?thesis
    by (auto simp: step_def exit_handler_def)
qed

lemma exit_after_main_returned:
  assumes "exit_status_pending s = Some status"
  shows "exit_code (sys_exit n s) = Some status"
  using assms by (simp add: sys_exit_def)

lemma exit_inside_main:
  assumes "exit_status_pending s = None"
  shows "exit_code (sys_exit n s) = exit_code s
         \<and> exit_status_pending (sys_exit n s) = Some n"
  using assms by (simp add: sys_exit_def)

text \<open>
  Claim C7, on the code. \<^verbatim>\<open>main\<close> has returned, as it does right after starting the
  threads; a collector thread is in its loop body and a batch waits in the queue. The first
  \<^verbatim>\<open>SIGTERM\<close> leaves the handler blocked in the join of that thread. The second calls
  \<^verbatim>\<open>exit(1)\<close>: the process ends at once, the batch undelivered and nothing joined, but the
  \<^verbatim>\<open>SystemExit\<close> is raised inside the interpreter's wait for the threads, where it is only
  reported, and the exit status is the 0 of \<^verbatim>\<open>main\<close>'s return, not 1.
\<close>

theorem second_signal_exit_status:
  "run [Thread_start, Thread_append, Collector_ready 0, Loop_test 0, Main_returns,
        Queue_put 0 [\<lparr> point_measurement = ''controllers'', point_tags = [(''host'', ''fa1'')],
                       point_time = 1700000000300,
                       point_fields = [(''status'', StrField ''ready'')] \<rparr>],
        Deliver_signal SIGTERM, Deliver_signal SIGTERM] initial
   = Some \<lparr> SHOULD_STOP = True, collector_threads = [In_cycle], started = None,
            data_points_queue =
              [Points [\<lparr> point_measurement = ''controllers'',
                         point_tags = [(''host'', ''fa1'')],
                         point_time = 1700000000300,
                         point_fields = [(''status'', StrField ''ready'')] \<rparr>]],
            unfinished_tasks = 1, writer_thread = Getting,
            writer_st = \<lparr> writes = [], tasks_done = 0, writer_log = [] \<rparr>,
            queue_reads = 0, handler = Join_collectors 0, handler_aborted = True,
            exit_status_pending = Some 0, exit_code = Some 0 \<rparr>"
  by (simp add: sys_defs)

text \<open>
  While \<^verbatim>\<open>main\<close> is still executing, the same two signals fix the exit status at 1, but
  the process does not end: the interpreter waits for the threads, and the handler that
  would have put \<open>STOP\<close> for the writer has been unwound.
\<close>

lemma second_signal_inside_main:
  "run [Thread_start, Thread_append, Collector_ready 0, Loop_test 0,
        Deliver_signal SIGTERM, Deliver_signal SIGTERM] initial
   = Some \<lparr> SHOULD_STOP = True, collector_threads = [In_cycle], started = None,
            data_points_queue = [],
            unfinished_tasks = 0, writer_thread = Getting,
            writer_st = \<lparr> writes = [], tasks_done = 0, writer_log = [] \<rparr>,
            queue_reads = 0, handler = Join_collectors 0, handler_aborted = True,
            exit_status_pending = Some 1, exit_code = None \<rparr>"
  by (simp add: sys_defs)

end
